theory Spec2Isabelle
  imports Complex_Main
begin

section \<open>JavaScript numbers\<close>

text \<open>
  A JavaScript number is NaN, one of the two infinities, or a finite value. The finite
  values are carried as reals. An arithmetic operation on two finite values computes the
  exact real result and hands it to \<open>rnd\<close>, the rounding to a double (which may overflow
  to an infinity); \<open>rnd\<close> is a parameter of every function that does arithmetic, so the
  results below hold for whatever the rounding is. Comparison and \<open>Math.floor\<close> are exact
  on doubles and need no rounding. The sign of zero is not modelled: \<open>===\<close> does not see it.
\<close>

datatype jsnum = NaN | PInf | NInf | Fin real

type_synonym rounding = "real \<Rightarrow> jsnum"

text \<open>\<open>a > b\<close>: false as soon as one side is NaN.\<close>

fun js_gt :: "jsnum \<Rightarrow> jsnum \<Rightarrow> bool" where
  "js_gt NaN b = False"
| "js_gt a NaN = False"
| "js_gt PInf PInf = False"
| "js_gt PInf b = True"
| "js_gt NInf b = False"
| "js_gt (Fin x) PInf = False"
| "js_gt (Fin x) NInf = True"
| "js_gt (Fin x) (Fin y) = (y < x)"

text \<open>\<open>a === b\<close> on numbers: NaN equals nothing, itself included.\<close>

definition js_eq :: "jsnum \<Rightarrow> jsnum \<Rightarrow> bool" where
  "js_eq a b = (a = b \<and> a \<noteq> NaN)"

fun js_add :: "rounding \<Rightarrow> jsnum \<Rightarrow> jsnum \<Rightarrow> jsnum" where
  "js_add rnd NaN b = NaN"
| "js_add rnd a NaN = NaN"
| "js_add rnd PInf NInf = NaN"
| "js_add rnd NInf PInf = NaN"
| "js_add rnd PInf b = PInf"
| "js_add rnd NInf b = NInf"
| "js_add rnd (Fin x) PInf = PInf"
| "js_add rnd (Fin x) NInf = NInf"
| "js_add rnd (Fin x) (Fin y) = rnd (x + y)"

fun js_sub :: "rounding \<Rightarrow> jsnum \<Rightarrow> jsnum \<Rightarrow> jsnum" where
  "js_sub rnd NaN b = NaN"
| "js_sub rnd a NaN = NaN"
| "js_sub rnd PInf PInf = NaN"
| "js_sub rnd NInf NInf = NaN"
| "js_sub rnd PInf b = PInf"
| "js_sub rnd NInf b = NInf"
| "js_sub rnd (Fin x) PInf = NInf"
| "js_sub rnd (Fin x) NInf = PInf"
| "js_sub rnd (Fin x) (Fin y) = rnd (x - y)"

text \<open>The sign rule for a product in which an infinity takes part; zero times infinity is NaN.\<close>

definition signed_inf :: "bool \<Rightarrow> jsnum" where
  "signed_inf positive = (if positive then PInf else NInf)"

fun js_mul :: "rounding \<Rightarrow> jsnum \<Rightarrow> jsnum \<Rightarrow> jsnum" where
  "js_mul rnd NaN b = NaN"
| "js_mul rnd a NaN = NaN"
| "js_mul rnd PInf PInf = PInf"
| "js_mul rnd PInf NInf = NInf"
| "js_mul rnd NInf PInf = NInf"
| "js_mul rnd NInf NInf = PInf"
| "js_mul rnd PInf (Fin y) = (if y = 0 then NaN else signed_inf (0 < y))"
| "js_mul rnd NInf (Fin y) = (if y = 0 then NaN else signed_inf (y < 0))"
| "js_mul rnd (Fin x) PInf = (if x = 0 then NaN else signed_inf (0 < x))"
| "js_mul rnd (Fin x) NInf = (if x = 0 then NaN else signed_inf (x < 0))"
| "js_mul rnd (Fin x) (Fin y) = rnd (x * y)"

text \<open>\<open>Math.floor\<close>: NaN and the infinities are returned as they are.\<close>

fun js_floor :: "jsnum \<Rightarrow> jsnum" where
  "js_floor (Fin x) = Fin (of_int \<lfloor>x\<rfloor>)"
| "js_floor a = a"

definition MAX_SAFE_INTEGER :: jsnum where
  "MAX_SAFE_INTEGER = Fin 9007199254740991"

text \<open>What a function ends with when it does not return: a TypeError thrown by the language.\<close>

datatype js_error = TypeError

section \<open>TableView: the default column widths\<close>

text \<open>
  The provider's scale indexes the two constant tables. A column node is seen through the
  three props the calculators destructure; each is read for its truthiness only.
\<close>

datatype scale = Medium | Large

fun DEFAULT_HIDE_HEADER_CELL_WIDTH :: "scale \<Rightarrow> int" where
  "DEFAULT_HIDE_HEADER_CELL_WIDTH Medium = 38"
| "DEFAULT_HIDE_HEADER_CELL_WIDTH Large = 46"

fun SELECTION_CELL_DEFAULT_WIDTH :: "scale \<Rightarrow> int" where
  "SELECTION_CELL_DEFAULT_WIDTH Medium = 38"
| "SELECTION_CELL_DEFAULT_WIDTH Large = 48"

record column_props =
  hideHeader :: bool
  isSelectionCell :: bool
  showDivider :: bool

text \<open>\<open>None\<close> is the \<open>undefined\<close> that falling off the end of the function returns.\<close>

definition getDefaultWidth :: "scale \<Rightarrow> column_props \<Rightarrow> int option" where
  "getDefaultWidth scale p =
     (if hideHeader p then
        (let width = DEFAULT_HIDE_HEADER_CELL_WIDTH scale
         in Some (if showDivider p then width + 1 else width))
      else if isSelectionCell p then Some (SELECTION_CELL_DEFAULT_WIDTH scale)
      else None)"

definition getDefaultMinWidth :: "scale \<Rightarrow> column_props \<Rightarrow> int option" where
  "getDefaultMinWidth scale p =
     (if hideHeader p then
        (let width = DEFAULT_HIDE_HEADER_CELL_WIDTH scale
         in Some (if showDivider p then width + 1 else width))
      else if isSelectionCell p then Some (SELECTION_CELL_DEFAULT_WIDTH scale)
      else Some 75)"

section \<open>useTableColumnResize\<close>

text \<open>
  The hook is handed \<open>state\<close>, the table's column-resize state, whose implementation is
  not part of these sources. It is taken as a parameter: a record of its operations over
  an arbitrary state type \<open>'ts\<close>. \<open>onColumnResize\<close> returns the new map of column sizes
  (type \<open>'sz\<close>) together with the changed state. Columns are named by their key \<open>'k\<close>.
\<close>

record ('k, 'ts, 'sz) column_resize_state =
  getColumnWidth :: "'ts \<Rightarrow> 'k \<Rightarrow> jsnum"
  getColumnMinWidth :: "'ts \<Rightarrow> 'k \<Rightarrow> jsnum"
  getColumnMaxWidth :: "'ts \<Rightarrow> 'k \<Rightarrow> jsnum"
  onColumnResize :: "'k \<Rightarrow> jsnum \<Rightarrow> 'ts \<Rightarrow> 'sz \<times> 'ts"
  onColumnResizeStart :: "'k \<Rightarrow> 'ts \<Rightarrow> 'ts"
  onColumnResizeEnd :: "'ts \<Rightarrow> 'ts"

text \<open>
  The props of the hook. The three callbacks are optional and are called through \<open>?.\<close>:
  each field says whether the callback was supplied.
\<close>

record resize_props =
  label :: string
  onResizeStart :: bool
  onResize :: bool
  onResizeEnd :: bool

text \<open>A call of one of the callbacks, with the sizes it was given.\<close>

datatype 'sz callback = OnResizeStart 'sz | OnResize 'sz | OnResizeEnd 'sz

text \<open>
  The mutable cells of the hook: the refs \<open>isResizing\<close>, \<open>lastSize\<close> (\<open>None\<close> is null)
  and \<open>columnResizeWidthRef\<close>, and the column-resize state the operations act on.
\<close>

record ('ts, 'sz) hook =
  isResizing :: bool
  lastSize :: "'sz option"
  columnResizeWidthRef :: jsnum
  cstate :: 'ts

text \<open>The cells as the hook creates them: \<open>useRef(false)\<close>, \<open>useRef(null)\<close>, \<open>useRef(0)\<close>.\<close>

definition initial_hook :: "'ts \<Rightarrow> ('ts, 'sz) hook" where
  "initial_hook s = \<lparr>isResizing = False, lastSize = None, columnResizeWidthRef = Fin 0, cstate = s\<rparr>"

text \<open>Every operation returns the new cells and the callbacks it called, in order.\<close>

definition startResize ::
  "('k, 'ts, 'sz) column_resize_state \<Rightarrow> resize_props \<Rightarrow> 'k \<Rightarrow> ('ts, 'sz) hook
     \<Rightarrow> ('ts, 'sz) hook \<times> 'sz callback list" where
  "startResize state props key h =
     (let (h1, called) =
        (if \<not> isResizing h then
           (let (sizes, s1) = onColumnResize state key (getColumnWidth state (cstate h) key) (cstate h);
                s2 = onColumnResizeStart state key s1
            in (h\<lparr>lastSize := Some sizes, cstate := s2\<rparr>,
                if onResizeStart props then [OnResizeStart sizes] else []))
         else (h, []))
      in (h1\<lparr>isResizing := True\<rparr>, called))"

definition resize ::
  "('k, 'ts, 'sz) column_resize_state \<Rightarrow> resize_props \<Rightarrow> 'k \<Rightarrow> jsnum \<Rightarrow> ('ts, 'sz) hook
     \<Rightarrow> ('ts, 'sz) hook \<times> 'sz callback list" where
  "resize state props key newWidth h =
     (let (sizes, s1) = onColumnResize state key newWidth (cstate h)
      in (h\<lparr>lastSize := Some sizes, cstate := s1\<rparr>,
          if onResize props then [OnResize sizes] else []))"

definition endResize ::
  "('k, 'ts, 'sz) column_resize_state \<Rightarrow> resize_props \<Rightarrow> 'k \<Rightarrow> ('ts, 'sz) hook
     \<Rightarrow> ('ts, 'sz) hook \<times> 'sz callback list" where
  "endResize state props key h =
     (let (sizes, s1) =
        (case lastSize h of
           None \<Rightarrow> onColumnResize state key (getColumnWidth state (cstate h) key) (cstate h)
         | Some sizes \<Rightarrow> (sizes, cstate h));
          (s2, called) =
        (if isResizing h
         then (onColumnResizeEnd state s1, if onResizeEnd props then [OnResizeEnd sizes] else [])
         else (s1, []))
      in (h\<lparr>isResizing := False, lastSize := None, cstate := s2\<rparr>, called))"

text \<open>The three operations as events, and a run of the hook over a sequence of them.\<close>

datatype 'k resize_event = StartResize 'k | Resize 'k jsnum | EndResize 'k

fun step ::
  "('k, 'ts, 'sz) column_resize_state \<Rightarrow> resize_props \<Rightarrow> 'k resize_event \<Rightarrow> ('ts, 'sz) hook
     \<Rightarrow> ('ts, 'sz) hook \<times> 'sz callback list" where
  "step state props (StartResize key) h = startResize state props key h"
| "step state props (Resize key newWidth) h = resize state props key newWidth h"
| "step state props (EndResize key) h = endResize state props key h"

fun run ::
  "('k, 'ts, 'sz) column_resize_state \<Rightarrow> resize_props \<Rightarrow> 'k resize_event list \<Rightarrow> ('ts, 'sz) hook
     \<Rightarrow> ('ts, 'sz) hook \<times> 'sz callback list" where
  "run state props [] h = (h, [])"
| "run state props (e # es) h =
     (let (h1, called1) = step state props e h;
          (h2, called2) = run state props es h1
      in (h2, called1 @ called2))"

text \<open>
  Reading a list of callback calls as episodes. \<open>episodes opened cs\<close> follows \<open>cs\<close> from a
  point where an episode is open or not: a start is accepted only when none is open, an
  end only when one is. The result is \<open>None\<close> when a call is out of place, and otherwise
  says whether an episode is open at the end.
\<close>

fun episodes :: "bool \<Rightarrow> 'sz callback list \<Rightarrow> bool option" where
  "episodes opened [] = Some opened"
| "episodes opened (OnResizeStart sizes # cs) = (if opened then None else episodes True cs)"
| "episodes opened (OnResizeEnd sizes # cs) = (if opened then episodes False cs else None)"
| "episodes opened (OnResize sizes # cs) = episodes opened cs"

fun is_start :: "'sz callback \<Rightarrow> bool" where
  "is_start (OnResizeStart sizes) = True"
| "is_start c = False"

fun is_end :: "'sz callback \<Rightarrow> bool" where
  "is_end (OnResizeEnd sizes) = True"
| "is_end c = False"

subsection \<open>Moving the resizer\<close>

datatype pointer_type = Mouse | Pen | Touch | Keyboard | Virtual

datatype direction = LTR | RTL

record move_event =
  deltaX :: jsnum
  deltaY :: jsnum
  pointerType :: pointer_type

text \<open>
  \<open>onMove\<close> first adjusts its local \<open>deltaX\<close>; \<open>moveDeltaX\<close> is the value of that local
  when the handler reaches its last test.
\<close>

definition moveDeltaX :: "rounding \<Rightarrow> direction \<Rightarrow> move_event \<Rightarrow> jsnum" where
  "moveDeltaX rnd dir e =
     (let dx = (if dir = RTL then js_mul rnd (deltaX e) (Fin (- 1)) else deltaX e)
      in if pointerType e = Keyboard then
           (let dx' = (if \<not> js_eq (deltaY e) (Fin 0) \<and> js_eq dx (Fin 0)
                       then js_mul rnd (deltaY e) (Fin (- 1)) else dx)
            in js_mul rnd dx' (Fin 10))
         else dx)"

definition onMoveStart ::
  "('k, 'ts, 'sz) column_resize_state \<Rightarrow> resize_props \<Rightarrow> 'k \<Rightarrow> ('ts, 'sz) hook
     \<Rightarrow> ('ts, 'sz) hook \<times> 'sz callback list" where
  "onMoveStart state props key h =
     startResize state props key (h\<lparr>columnResizeWidthRef := getColumnWidth state (cstate h) key\<rparr>)"

definition onMove ::
  "rounding \<Rightarrow> ('k, 'ts, 'sz) column_resize_state \<Rightarrow> resize_props \<Rightarrow> direction \<Rightarrow> 'k
     \<Rightarrow> move_event \<Rightarrow> ('ts, 'sz) hook \<Rightarrow> ('ts, 'sz) hook \<times> 'sz callback list" where
  "onMove rnd state props dir key e h =
     (let dx = moveDeltaX rnd dir e
      in if \<not> js_eq dx (Fin 0) then
           (let h1 = h\<lparr>columnResizeWidthRef := js_add rnd (columnResizeWidthRef h) dx\<rparr>
            in resize state props key (columnResizeWidthRef h1) h1)
         else (h, []))"

definition onMoveEnd ::
  "('k, 'ts, 'sz) column_resize_state \<Rightarrow> resize_props \<Rightarrow> 'k \<Rightarrow> move_event \<Rightarrow> ('ts, 'sz) hook
     \<Rightarrow> ('ts, 'sz) hook \<times> 'sz callback list" where
  "onMoveEnd state props key e h =
     (let h1 = h\<lparr>columnResizeWidthRef := Fin 0\<rparr>
      in if pointerType e = Mouse then endResize state props key h1 else (h1, []))"

subsection \<open>The hidden range input\<close>

text \<open>
  The strings of the attribute object come from the id hook, the column header id and the
  string formatter, which are taken as given.
\<close>

record 'k input_env =
  input_id :: string
  getColumnHeaderId :: "'k \<Rightarrow> string"
  formatColumnSize :: "jsnum \<Rightarrow> string"

record input_attrs =
  aria_label :: string
  aria_orientation :: string
  aria_labelledby :: string
  aria_valuetext :: string
  input_type :: string
  attr_min :: jsnum
  attr_max :: jsnum
  attr_value :: jsnum

definition ariaProps ::
  "'k input_env \<Rightarrow> ('k, 'ts, 'sz) column_resize_state \<Rightarrow> resize_props \<Rightarrow> 'k \<Rightarrow> 'ts \<Rightarrow> input_attrs" where
  "ariaProps env state props key s =
     (let min0 = js_floor (getColumnMinWidth state s key);
          max0 = js_floor (getColumnMaxWidth state s key);
          max1 = (if js_eq max0 PInf then MAX_SAFE_INTEGER else max0);
          val = js_floor (getColumnWidth state s key)
      in \<lparr>aria_label = label props,
          aria_orientation = ''horizontal'',
          aria_labelledby = input_id env @ '' '' @ getColumnHeaderId env key,
          aria_valuetext = formatColumnSize env val,
          input_type = ''range'',
          attr_min = min0,
          attr_max = max1,
          attr_value = val\<rparr>)"

text \<open>
  The change handler of the input. \<open>parseFloat\<close> is the language's own function and is a
  parameter; \<open>target_value\<close> is the string \<open>e.target.value\<close>.
\<close>

definition onChange ::
  "rounding \<Rightarrow> (string \<Rightarrow> jsnum) \<Rightarrow> ('k, 'ts, 'sz) column_resize_state \<Rightarrow> resize_props \<Rightarrow> 'k
     \<Rightarrow> string \<Rightarrow> ('ts, 'sz) hook \<Rightarrow> ('ts, 'sz) hook \<times> 'sz callback list" where
  "onChange rnd parseFloat state props key target_value h =
     (let currentWidth = getColumnWidth state (cstate h) key;
          nextValue = parseFloat target_value;
          nextValue' = (if js_gt nextValue currentWidth
                        then js_add rnd currentWidth (Fin 10)
                        else js_sub rnd currentWidth (Fin 10))
      in resize state props key nextValue' h)"

section \<open>TableVirtualizer: header and body scroll positions\<close>

text \<open>
  The two refs hold the header container and the table body, or null (\<open>None\<close>) while
  nothing is attached. Of an element only the scroll offsets matter here; storing into
  \<open>scrollLeft\<close> is modelled as a plain store of the value (a browser may clamp the
  offset to the scroll range of the element, which is the DOM's doing and not this
  code's). Reading a property of null throws a TypeError.
\<close>

record element =
  scrollLeft :: jsnum
  scrollTop :: jsnum

record refs =
  headerRef :: "element option"
  bodyRef :: "element option"

definition onScroll :: "refs \<Rightarrow> js_error + refs" where
  "onScroll r =
     (case headerRef r of
        None \<Rightarrow> Inl TypeError
      | Some header \<Rightarrow>
          (case bodyRef r of
             None \<Rightarrow> Inl TypeError
           | Some body \<Rightarrow> Inr (r\<lparr>headerRef := Some (header\<lparr>scrollLeft := scrollLeft body\<rparr>)\<rparr>)))"

text \<open>
  \<open>scrollToItem\<close> works on the collection, the layout, the virtualizer, the interaction
  modality and \<open>scrollIntoViewport\<close>, none of which is part of these sources: they are the
  fields of the environment, the last two acting on the elements behind the refs.
\<close>

datatype modality = KeyboardModality | PointerModality | VirtualModality

record 'k node =
  node_type :: string
  node_key :: 'k
  node_isSelectionCell :: bool

record scroll_options =
  duration :: nat
  shouldScrollY :: bool
  offsetX :: jsnum

record 'k virtualizer_env =
  getItem :: "'k \<Rightarrow> 'k node option"
  columns :: "'k node list"
  layout_getColumnWidth :: "'k \<Rightarrow> jsnum"
  virtualizer_scrollToItem :: "'k \<Rightarrow> scroll_options \<Rightarrow> refs \<Rightarrow> refs"
  getInteractionModality :: "modality option"
  scrollIntoViewport :: "refs \<Rightarrow> refs"

definition scrollToItem :: "'k virtualizer_env \<Rightarrow> 'k \<Rightarrow> refs \<Rightarrow> js_error + refs" where
  "scrollToItem env key r =
     (let item = getItem env key
      in case columns env of
           [] \<Rightarrow> Inl TypeError
         | column # rest \<Rightarrow>
             (let modality = getInteractionModality env;
                  r1 = virtualizer_scrollToItem env key
                         \<lparr>duration = 0,
                          shouldScrollY = (map_option node_type item \<noteq> Some ''column''),
                          offsetX = (if node_isSelectionCell column
                                     then layout_getColumnWidth env (node_key column)
                                     else Fin 0)\<rparr> r
              in case headerRef r1 of
                   None \<Rightarrow> Inl TypeError
                 | Some header \<Rightarrow>
                     (case bodyRef r1 of
                        None \<Rightarrow> Inl TypeError
                      | Some body \<Rightarrow>
                          (let r2 = r1\<lparr>headerRef := Some (header\<lparr>scrollLeft := scrollLeft body\<rparr>)\<rparr>
                           in Inr (if modality = Some KeyboardModality
                                   then scrollIntoViewport env r2 else r2)))))"

text \<open>Header and body are both attached and have the same horizontal scroll offset.\<close>

definition aligned :: "refs \<Rightarrow> bool" where
  "aligned r =
     (case headerRef r of
        None \<Rightarrow> False
      | Some header \<Rightarrow>
          (case bodyRef r of None \<Rightarrow> False | Some body \<Rightarrow> scrollLeft header = scrollLeft body))"

section \<open>SelectList\<close>

text \<open>
  The component is untyped JavaScript, so its props, its stored value and the option
  values are JavaScript values. Arrays, functions and other objects are reference values:
  each carries its identity, a number, and \<open>===\<close> compares identities. An array carries
  its elements too; the component never changes an array after creating it. \<open>VObj\<close> is
  an object that is neither an array nor a function, as an object literal is: it has no
  \<open>indexOf\<close> and cannot be spread into an array, and none of its properties is read here.
  Props are a dictionary from names to values; a name bound to \<open>VUndefined\<close> is a key
  that is present and undefined.
\<close>

datatype jsval =
  VUndefined | VNull | VBool bool | VNum jsnum | VStr string
  | VArr nat "jsval list" | VObj nat | VFun nat

type_synonym props = "string \<rightharpoonup> jsval"

text \<open>Reading \<open>props.name\<close>: a missing key reads as undefined.\<close>

definition read_prop :: "props \<Rightarrow> string \<Rightarrow> jsval" where
  "read_prop props name = (case props name of None \<Rightarrow> VUndefined | Some v \<Rightarrow> v)"

fun truthy :: "jsval \<Rightarrow> bool" where
  "truthy VUndefined = False"
| "truthy VNull = False"
| "truthy (VBool b) = b"
| "truthy (VNum n) = (n \<noteq> NaN \<and> n \<noteq> Fin 0)"
| "truthy (VStr s) = (s \<noteq> [])"
| "truthy (VArr r xs) = True"
| "truthy (VObj r) = True"
| "truthy (VFun f) = True"

text \<open>
  \<open>a === b\<close>. NaN is not equal to itself. Two arrays are equal when they are the same
  array, whatever their elements; so are two objects and two functions.
\<close>

fun strict_eq :: "jsval \<Rightarrow> jsval \<Rightarrow> bool" where
  "strict_eq (VArr r xs) (VArr r' ys) = (r = r')"
| "strict_eq (VArr r xs) b = False"
| "strict_eq a (VArr r' ys) = False"
| "strict_eq a b = (a = b \<and> a \<noteq> VNum NaN)"

text \<open>\<open>Array.prototype.indexOf\<close>: the first index whose element is \<open>===\<close> the value, or -1.\<close>

fun indexOf :: "jsval list \<Rightarrow> jsval \<Rightarrow> int" where
  "indexOf [] x = - 1"
| "indexOf (y # ys) x =
     (if strict_eq y x then 0
      else (let i = indexOf ys x in if i < 0 then - 1 else i + 1))"

text \<open>
  \<open>Array.prototype.slice(start, stop)\<close>: a negative index counts from the end, and both
  are clamped to the array.
\<close>

definition slice :: "'a list \<Rightarrow> int \<Rightarrow> int \<Rightarrow> 'a list" where
  "slice xs start stop =
     (let n = int (length xs);
          k = (if start < 0 then max (n + start) 0 else min start n);
          final = (if stop < 0 then max (n + stop) 0 else min stop n)
      in take (nat (final - k)) (drop (nat k) xs))"

text \<open>
  \<open>String.prototype.indexOf\<close>: the first position at which the searched string starts,
  or -1. The empty string is found at 0. A string is a list of characters, and its
  \<open>length\<close> and \<open>slice\<close> are those of the list.
\<close>

fun str_indexOf :: "string \<Rightarrow> string \<Rightarrow> int" where
  "str_indexOf [] t = (if t = [] then 0 else - 1)"
| "str_indexOf (c # cs) t =
     (if take (length t) (c # cs) = t then 0
      else (let i = str_indexOf cs t in if i < 0 then - 1 else i + 1))"

text \<open>
  The conversion of a value to a string that \<open>String.prototype.indexOf\<close> applies to its
  argument. The strings of finite numbers and of reference values are the language's and
  are given by \<open>conv\<close>, a parameter.
\<close>

definition toString :: "(jsval \<Rightarrow> string) \<Rightarrow> jsval \<Rightarrow> string" where
  "toString conv v =
     (case v of
        VUndefined \<Rightarrow> ''undefined''
      | VNull \<Rightarrow> ''null''
      | VBool b \<Rightarrow> (if b then ''true'' else ''false'')
      | VNum n \<Rightarrow>
          (case n of NaN \<Rightarrow> ''NaN'' | PInf \<Rightarrow> ''Infinity'' | NInf \<Rightarrow> ''-Infinity''
           | Fin x \<Rightarrow> conv v)
      | VStr s \<Rightarrow> s
      | _ \<Rightarrow> conv v)"

text \<open>
  What a spread \<open>...value\<close> inside an array literal contributes: the elements of an
  array, the characters of a string as one-character strings, and a TypeError for a
  value that cannot be iterated.
\<close>

definition spread :: "jsval \<Rightarrow> js_error + jsval list" where
  "spread v =
     (case v of
        VArr r xs \<Rightarrow> Inr xs
      | VStr s \<Rightarrow> Inr (map (\<lambda>c. VStr [c]) s)
      | _ \<Rightarrow> Inl TypeError)"

record selectlist_state =
  state_value :: jsval

record option_item =
  opt_value :: jsval
  opt_label :: jsval
  opt_icon :: jsval
  opt_disabled :: jsval

definition constructor :: "props \<Rightarrow> selectlist_state" where
  "constructor props = \<lparr>state_value = read_prop props ''value''\<rparr>"

definition componentWillReceiveProps :: "props \<Rightarrow> selectlist_state \<Rightarrow> selectlist_state" where
  "componentWillReceiveProps props st =
     (if truthy (read_prop props ''value'') \<and> \<not> strict_eq (read_prop props ''value'') (state_value st)
      then st\<lparr>state_value := read_prop props ''value''\<rparr>
      else st)"

text \<open>
  The selection methods use the stored value through \<open>indexOf\<close>, \<open>slice\<close>, \<open>length\<close> and
  the spread. An array has them all, and so has a non-empty string, whose characters are
  then searched, cut and spread. Any other truthy value (a number, \<open>true\<close>, a function,
  an object) has no \<open>indexOf\<close> and cannot be spread: a TypeError. A falsy value is
  replaced by \<open>[]\<close>.

  Each method builds its result with an array literal, which creates a new array:
  \<open>ref\<close> is the identity that array gets. The \<open>[]\<close> that stands in for a falsy value
  never leaves the method, and is written with the same identity.
\<close>

definition addSelection :: "nat \<Rightarrow> selectlist_state \<Rightarrow> option_item \<Rightarrow> js_error + jsval" where
  "addSelection ref st option =
     (case spread (if truthy (state_value st) then state_value st else VArr ref []) of
        Inl e \<Rightarrow> Inl e
      | Inr xs \<Rightarrow> Inr (VArr ref (xs @ [opt_value option])))"

definition removeSelection ::
  "(jsval \<Rightarrow> string) \<Rightarrow> nat \<Rightarrow> selectlist_state \<Rightarrow> option_item \<Rightarrow> js_error + jsval" where
  "removeSelection conv ref st option =
     (case (if truthy (state_value st) then state_value st else VArr ref []) of
        VArr r xs \<Rightarrow>
          (let index = indexOf xs (opt_value option)
           in Inr (VArr ref (slice xs 0 index @ slice xs (index + 1) (int (length xs)))))
      | VStr s \<Rightarrow>
          (let index = str_indexOf s (toString conv (opt_value option))
           in case spread (VStr (slice s 0 index)) of
                Inl e \<Rightarrow> Inl e
              | Inr front \<Rightarrow>
                  (case spread (VStr (slice s (index + 1) (int (length s)))) of
                     Inl e \<Rightarrow> Inl e
                   | Inr back \<Rightarrow> Inr (VArr ref (front @ back))))
      | _ \<Rightarrow> Inl TypeError)"

text \<open>\<open>isSelected\<close> returns a value that its callers read for truthiness.\<close>

definition isSelected ::
  "(jsval \<Rightarrow> string) \<Rightarrow> props \<Rightarrow> selectlist_state \<Rightarrow> option_item \<Rightarrow> js_error + jsval" where
  "isSelected conv props st option =
     (if truthy (read_prop props ''multiple'') then
        (if \<not> truthy (state_value st) then Inr (state_value st)
         else (case state_value st of
                 VArr r xs \<Rightarrow> Inr (VBool (0 \<le> indexOf xs (opt_value option)))
               | VStr s \<Rightarrow> Inr (VBool (0 \<le> str_indexOf s (toString conv (opt_value option))))
               | _ \<Rightarrow> Inl TypeError))
      else Inr (VBool (strict_eq (state_value st) (opt_value option))))"

text \<open>The first statement of \<open>handleSelect\<close>: the value of its local \<open>nextOptions\<close>.\<close>

definition nextOptions ::
  "(jsval \<Rightarrow> string) \<Rightarrow> nat \<Rightarrow> props \<Rightarrow> selectlist_state \<Rightarrow> option_item \<Rightarrow> js_error + jsval" where
  "nextOptions conv ref props st option =
     (if truthy (read_prop props ''multiple'') then
        (case isSelected conv props st option of
           Inl e \<Rightarrow> Inl e
         | Inr selected \<Rightarrow>
             (if truthy selected then removeSelection conv ref st option
              else addSelection ref st option))
      else Inr (opt_value option))"

text \<open>
  What \<open>handleSelect\<close> does besides changing the state: it calls \<open>onChange\<close>, or an
  exception leaves it. \<open>setState\<close> is modelled as the store it leads to, one call of
  \<open>handleSelect\<close> being one event.
\<close>

datatype effect = OnChange jsval | Threw js_error

definition handleSelect ::
  "(jsval \<Rightarrow> string) \<Rightarrow> nat \<Rightarrow> props \<Rightarrow> selectlist_state \<Rightarrow> option_item
     \<Rightarrow> selectlist_state \<times> effect list" where
  "handleSelect conv ref props st option =
     (case nextOptions conv ref props st option of
        Inl e \<Rightarrow> (st, [Threw e])
      | Inr next \<Rightarrow>
          (let st1 = (if props ''value'' = None then st\<lparr>state_value := next\<rparr> else st);
               handler = read_prop props ''onChange''
           in if truthy handler then
                (case handler of
                   VFun f \<Rightarrow> (st1, [OnChange next])
                 | _ \<Rightarrow> (st1, [Threw TypeError]))
              else (st1, [])))"



section \<open>Concrete inputs\<close>

text \<open>
  A column-resize state of one column: the state is the width of the column, resizing
  stores the requested width, and the sizes reported are that width.
\<close>

definition single_column :: "(nat, jsnum, jsnum) column_resize_state" where
  "single_column =
     \<lparr>getColumnWidth = (\<lambda>s key. s),
      getColumnMinWidth = (\<lambda>s key. Fin (151 / 2)),
      getColumnMaxWidth = (\<lambda>s key. PInf),
      onColumnResize = (\<lambda>key w s. (w, w)),
      onColumnResizeStart = (\<lambda>key s. s),
      onColumnResizeEnd = (\<lambda>s. s)\<rparr>"

definition end_only :: resize_props where
  "end_only = \<lparr>label = ''Resizer'', onResizeStart = False, onResize = False, onResizeEnd = True\<rparr>"

definition all_callbacks :: resize_props where
  "all_callbacks = \<lparr>label = ''Resizer'', onResizeStart = True, onResize = True, onResizeEnd = True\<rparr>"

definition some_events :: "nat resize_event list" where
  "some_events =
     [StartResize 0, StartResize 0, Resize 0 (Fin 120), EndResize 0, EndResize 0, StartResize 0]"

text \<open>A table scrolled to 40 whose header is still at 0, and a virtualizer that scrolls
  the body to the offset it is given.\<close>

definition scrolled_body :: refs where
  "scrolled_body =
     \<lparr>headerRef = Some \<lparr>scrollLeft = Fin 0, scrollTop = Fin 0\<rparr>,
      bodyRef = Some \<lparr>scrollLeft = Fin 40, scrollTop = Fin 300\<rparr>\<rparr>"

definition pointer_env :: "nat virtualizer_env" where
  "pointer_env =
     \<lparr>getItem = (\<lambda>key. Some \<lparr>node_type = ''item'', node_key = key, node_isSelectionCell = False\<rparr>),
      columns = [\<lparr>node_type = ''column'', node_key = 0, node_isSelectionCell = True\<rparr>],
      layout_getColumnWidth = (\<lambda>key. Fin 38),
      virtualizer_scrollToItem = (\<lambda>key opts r.
        r\<lparr>bodyRef := map_option (\<lambda>body. body\<lparr>scrollLeft := offsetX opts\<rparr>) (bodyRef r)\<rparr>),
      getInteractionModality = Some PointerModality,
      scrollIntoViewport = (\<lambda>r. r)\<rparr>"

text \<open>Props and options of a SelectList.\<close>

definition multiple_props :: props where
  "multiple_props = [''multiple'' \<mapsto> VBool True, ''onChange'' \<mapsto> VFun 0]"

definition controlled_props :: props where
  "controlled_props =
     [''multiple'' \<mapsto> VBool True, ''value'' \<mapsto> VArr 1 [VStr ''a''], ''onChange'' \<mapsto> VFun 0]"


definition option_b :: option_item where
  "option_b =
     \<lparr>opt_value = VStr ''b'', opt_label = VStr ''B'', opt_icon = VUndefined, opt_disabled = VUndefined\<rparr>"

text \<open>The conversion to a string at its simplest: every value it is asked for gives \<open>?\<close>.\<close>

definition plain_conv :: "jsval \<Rightarrow> string" where
  "plain_conv v = ''?''"

definition nan_option :: option_item where
  "nan_option =
     \<lparr>opt_value = VNum NaN, opt_label = VStr ''n'', opt_icon = VUndefined, opt_disabled = VUndefined\<rparr>"

section \<open>Properties\<close>

subsection \<open>Default widths\<close>

text \<open>
  C6. For every scale and column: with hideHeader both calculators give the
  hidden-header width of the scale, one more when showDivider is set; otherwise for a
  selection cell both give the selection-cell width of the scale; otherwise
  getDefaultWidth gives undefined and getDefaultMinWidth gives 75.
\<close>

theorem default_widths_by_table:
  "getDefaultWidth scale p =
     (if hideHeader p
      then Some (DEFAULT_HIDE_HEADER_CELL_WIDTH scale + (if showDivider p then 1 else 0))
      else if isSelectionCell p then Some (SELECTION_CELL_DEFAULT_WIDTH scale)
      else None)
   \<and> getDefaultMinWidth scale p =
     (if hideHeader p
      then Some (DEFAULT_HIDE_HEADER_CELL_WIDTH scale + (if showDivider p then 1 else 0))
      else if isSelectionCell p then Some (SELECTION_CELL_DEFAULT_WIDTH scale)
      else Some 75)
   \<and> DEFAULT_HIDE_HEADER_CELL_WIDTH scale = (case scale of Medium \<Rightarrow> 38 | Large \<Rightarrow> 46)
   \<and> SELECTION_CELL_DEFAULT_WIDTH scale = (case scale of Medium \<Rightarrow> 38 | Large \<Rightarrow> 48)"
  by (cases scale) (simp_all add: getDefaultWidth_def getDefaultMinWidth_def Let_def)

theorem default_widths_by_table_witness:
  "getDefaultWidth Large \<lparr>hideHeader = True, isSelectionCell = False, showDivider = True\<rparr> = Some 47
   \<and> getDefaultMinWidth Large \<lparr>hideHeader = True, isSelectionCell = False, showDivider = True\<rparr> = Some 47
   \<and> getDefaultWidth Medium \<lparr>hideHeader = False, isSelectionCell = True, showDivider = True\<rparr> = Some 38
   \<and> getDefaultWidth Medium \<lparr>hideHeader = False, isSelectionCell = False, showDivider = False\<rparr> = None
   \<and> getDefaultMinWidth Medium \<lparr>hideHeader = False, isSelectionCell = False, showDivider = False\<rparr>
       = Some 75"
  using default_widths_by_table [of Large "\<lparr>hideHeader = True, isSelectionCell = False, showDivider = True\<rparr>"]
    default_widths_by_table [of Medium "\<lparr>hideHeader = False, isSelectionCell = True, showDivider = True\<rparr>"]
    default_widths_by_table [of Medium "\<lparr>hideHeader = False, isSelectionCell = False, showDivider = False\<rparr>"]
  by simp

subsection \<open>Resize episodes\<close>

text \<open>
  One step hands the open/closed reading of the callback list on to the cells: reading
  the calls of a step from the flag before it leaves the reading at the flag after it.
\<close>

lemma step_episodes:
  assumes "onResizeStart props" and "onResizeEnd props"
  shows "episodes (isResizing h) (snd (step state props e h) @ cs)
           = episodes (isResizing (fst (step state props e h))) cs"
  using assms
  by (cases e)
     (auto simp add: startResize_def resize_def endResize_def Let_def
        split: prod.splits option.splits)

lemma run_episodes:
  assumes "onResizeStart props" and "onResizeEnd props"
  shows "episodes (isResizing h) (snd (run state props es h))
           = Some (isResizing (fst (run state props es h)))"
proof (induction es arbitrary: h)
  case Nil
  show ?case by simp
next
  case (Cons e es)
  obtain h1 c1 where s: "step state props e h = (h1, c1)"
    by (cases "step state props e h")
  obtain h2 c2 where r: "run state props es h1 = (h2, c2)"
    by (cases "run state props es h1")
  have "episodes (isResizing h) (c1 @ c2) = episodes (isResizing h1) c2"
    using step_episodes [OF assms, of h state e c2] s by simp
  also have "\<dots> = Some (isResizing h2)"
    using Cons.IH [of h1] r by simp
  finally show ?case using s r by simp
qed

lemma startResize_calls:
  "length (filter is_start (snd (startResize state props key h)))
     = (if \<not> isResizing h \<and> onResizeStart props then 1 else 0)"
  "filter is_end (snd (startResize state props key h)) = []"
  by (simp_all add: startResize_def Let_def split: prod.splits)

lemma endResize_calls:
  "length (filter is_end (snd (endResize state props key h)))
     = (if isResizing h \<and> onResizeEnd props then 1 else 0)"
  "filter is_start (snd (endResize state props key h)) = []"
  by (simp_all add: endResize_def Let_def split: prod.splits option.splits)

lemma resize_calls:
  "filter is_start (snd (resize state props key w h)) = []"
  "filter is_end (snd (resize state props key w h)) = []"
  by (simp_all add: resize_def Let_def split: prod.splits)

lemma endResize_cells:
  "isResizing (fst (endResize state props key h)) = False"
  "lastSize (fst (endResize state props key h)) = None"
  by (simp_all add: endResize_def Let_def split: prod.splits option.splits)

text \<open>
  Whatever callbacks are supplied, a step that calls onResizeStart raises the flag and
  a step that calls onResizeEnd lowers it.
\<close>

lemma step_flag:
  "(filter is_start (snd (step state props e h)) \<noteq> [] \<longrightarrow>
      \<not> isResizing h \<and> isResizing (fst (step state props e h)))
   \<and> (filter is_end (snd (step state props e h)) \<noteq> [] \<longrightarrow>
      isResizing h \<and> \<not> isResizing (fst (step state props e h)))"
  by (cases e)
     (auto simp add: startResize_def resize_def endResize_def Let_def
        split: prod.splits option.splits if_splits)

text \<open>
  C1, as amended. The three callbacks are optional. When onResizeStart and onResizeEnd
  are both supplied, the callbacks called over any sequence of startResize, resize and
  endResize events read as episodes from the isResizing flag the sequence starts with:
  no start while an episode is open, no end while none is, and the flag at the end says
  whether one is open. Whatever is supplied: startResize calls onResizeStart once when
  the flag is down and the callback is there, and not at all otherwise, and never
  onResizeEnd; resize calls neither; endResize calls onResizeEnd once when the flag is up
  and the callback is there, and not at all otherwise, and never onResizeStart; a step
  that calls onResizeStart finds the flag down and leaves it up, and a step that calls
  onResizeEnd finds it up and leaves it down; and after endResize the flag is false and
  lastSize is null.
\<close>

theorem resize_callbacks_in_episodes:
  "(onResizeStart props \<and> onResizeEnd props \<longrightarrow>
      episodes (isResizing h) (snd (run state props es h))
        = Some (isResizing (fst (run state props es h))))
   \<and> length (filter is_start (snd (startResize state props key h)))
       = (if \<not> isResizing h \<and> onResizeStart props then 1 else 0)
   \<and> filter is_end (snd (startResize state props key h)) = []
   \<and> filter is_start (snd (resize state props key w h)) = []
   \<and> filter is_end (snd (resize state props key w h)) = []
   \<and> length (filter is_end (snd (endResize state props key h)))
       = (if isResizing h \<and> onResizeEnd props then 1 else 0)
   \<and> filter is_start (snd (endResize state props key h)) = []
   \<and> (filter is_start (snd (step state props e h)) \<noteq> [] \<longrightarrow>
        \<not> isResizing h \<and> isResizing (fst (step state props e h)))
   \<and> (filter is_end (snd (step state props e h)) \<noteq> [] \<longrightarrow>
        isResizing h \<and> \<not> isResizing (fst (step state props e h)))
   \<and> isResizing (fst (endResize state props key h)) = False
   \<and> lastSize (fst (endResize state props key h)) = None"
proof -
  have r: "onResizeStart props \<and> onResizeEnd props \<longrightarrow>
      episodes (isResizing h) (snd (run state props es h))
        = Some (isResizing (fst (run state props es h)))"
    using run_episodes [of props h state es] by blast
  show ?thesis
    by (intro conjI)
       (rule r startResize_calls endResize_calls resize_calls endResize_cells
          step_flag [THEN conjunct1] step_flag [THEN conjunct2])+
qed

theorem resize_callbacks_in_episodes_witness:
  "onResizeStart all_callbacks \<and> onResizeEnd all_callbacks
   \<and> snd (run single_column all_callbacks some_events (initial_hook (Fin 100)))
       = [OnResizeStart (Fin 100), OnResize (Fin 120), OnResizeEnd (Fin 120), OnResizeStart (Fin 120)]
   \<and> episodes False (snd (run single_column all_callbacks some_events (initial_hook (Fin 100))))
       = Some True
   \<and> isResizing (fst (endResize single_column all_callbacks 0
        (fst (run single_column all_callbacks some_events (initial_hook (Fin 100)))))) = False
   \<and> lastSize (fst (endResize single_column all_callbacks 0
        (fst (run single_column all_callbacks some_events (initial_hook (Fin 100)))))) = None"
proof -
  have a: "onResizeStart all_callbacks \<and> onResizeEnd all_callbacks"
    by (simp add: all_callbacks_def)
  have r: "run single_column all_callbacks some_events (initial_hook (Fin 100))
      = (\<lparr>isResizing = True, lastSize = Some (Fin 120), columnResizeWidthRef = Fin 0,
           cstate = Fin 120\<rparr>,
         [OnResizeStart (Fin 100), OnResize (Fin 120), OnResizeEnd (Fin 120),
          OnResizeStart (Fin 120)])"
    by (simp add: single_column_def all_callbacks_def some_events_def initial_hook_def
        startResize_def resize_def endResize_def Let_def)
  show ?thesis
    using a r
      resize_callbacks_in_episodes [where props = all_callbacks
        and h = "initial_hook (Fin 100) :: (jsnum, jsnum) hook" and state = single_column
        and es = some_events, THEN conjunct1]
      resize_callbacks_in_episodes [where props = all_callbacks
        and h = "fst (run single_column all_callbacks some_events (initial_hook (Fin 100)))"
        and state = single_column and key = "0::nat", THEN conjunct2]
    by (simp add: initial_hook_def)
qed

text \<open>
  The claim as stated fails when onResizeEnd is supplied and onResizeStart is not: a
  start followed by an end calls onResizeEnd, and no onResizeStart came before it.
\<close>

theorem resize_callbacks_in_episodes_counterexample:
  "onResizeStart end_only = False
   \<and> onResizeEnd end_only = True
   \<and> snd (run single_column end_only [StartResize 0, EndResize 0] (initial_hook (Fin 100)))
       = [OnResizeEnd (Fin 100)]
   \<and> episodes False
        (snd (run single_column end_only [StartResize 0, EndResize 0] (initial_hook (Fin 100))))
       = None"
  by (simp add: single_column_def end_only_def initial_hook_def startResize_def endResize_def
      Let_def)

subsection \<open>Header and body scroll positions\<close>

lemma onScroll_aligned: "onScroll r = Inr r' \<Longrightarrow> aligned r' \<and> bodyRef r' = bodyRef r"
  by (auto simp add: onScroll_def aligned_def split: option.splits)

lemma onScroll_attached:
  "headerRef r = Some header \<Longrightarrow> bodyRef r = Some body \<Longrightarrow>
     onScroll r = Inr (r\<lparr>headerRef := Some (header\<lparr>scrollLeft := scrollLeft body\<rparr>)\<rparr>)"
  by (simp add: onScroll_def)

lemma scrollToItem_sync:
  "scrollToItem env key r =
     (case columns env of
        [] \<Rightarrow> Inl TypeError
      | column # rest \<Rightarrow>
          (case onScroll (virtualizer_scrollToItem env key
                  \<lparr>duration = 0,
                   shouldScrollY = (map_option node_type (getItem env key) \<noteq> Some ''column''),
                   offsetX = (if node_isSelectionCell column
                              then layout_getColumnWidth env (node_key column) else Fin 0)\<rparr> r) of
             Inl e \<Rightarrow> Inl e
           | Inr r2 \<Rightarrow> Inr (if getInteractionModality env = Some KeyboardModality
                             then scrollIntoViewport env r2 else r2)))"
  by (simp add: scrollToItem_def onScroll_def Let_def split: list.splits option.splits)

lemma scrollToItem_aligned:
  "scrollToItem env key r = Inr r' \<Longrightarrow> getInteractionModality env \<noteq> Some KeyboardModality
     \<Longrightarrow> aligned r'"
  by (auto simp add: scrollToItem_def aligned_def Let_def split: list.splits option.splits if_splits)

text \<open>
  C2. The scroll handler of the body, with both elements attached, stores the body's
  scrollLeft into the header's and changes nothing else, so that afterwards the two are
  equal. scrollToItem applies the same store to the elements as the virtualizer's
  scrollToItem leaves them, before anything else touches them: its result is that of the
  scroll handler run right after the virtualizer, followed in keyboard modality by
  scrollIntoViewport. In any other modality header and body are equal when it returns.
\<close>

theorem header_follows_body:
  "(headerRef r = Some header \<and> bodyRef r = Some body \<longrightarrow>
      onScroll r = Inr (r\<lparr>headerRef := Some (header\<lparr>scrollLeft := scrollLeft body\<rparr>)\<rparr>))
   \<and> (onScroll r = Inr r' \<longrightarrow> aligned r' \<and> bodyRef r' = bodyRef r)
   \<and> scrollToItem env key r =
       (case columns env of
          [] \<Rightarrow> Inl TypeError
        | column # rest \<Rightarrow>
            (case onScroll (virtualizer_scrollToItem env key
                    \<lparr>duration = 0,
                     shouldScrollY = (map_option node_type (getItem env key) \<noteq> Some ''column''),
                     offsetX = (if node_isSelectionCell column
                                then layout_getColumnWidth env (node_key column) else Fin 0)\<rparr> r) of
               Inl e \<Rightarrow> Inl e
             | Inr r2 \<Rightarrow> Inr (if getInteractionModality env = Some KeyboardModality
                               then scrollIntoViewport env r2 else r2)))
   \<and> (scrollToItem env key r = Inr r'' \<and> getInteractionModality env \<noteq> Some KeyboardModality
        \<longrightarrow> aligned r'')"
  using onScroll_attached [of r header body] onScroll_aligned [of r r']
    scrollToItem_sync [of env key r] scrollToItem_aligned [of env key r r'']
  by blast

theorem header_follows_body_witness:
  "onScroll scrolled_body =
     Inr \<lparr>headerRef = Some \<lparr>scrollLeft = Fin 40, scrollTop = Fin 0\<rparr>,
          bodyRef = Some \<lparr>scrollLeft = Fin 40, scrollTop = Fin 300\<rparr>\<rparr>
   \<and> aligned \<lparr>headerRef = Some \<lparr>scrollLeft = Fin 40, scrollTop = Fin 0\<rparr>,
          bodyRef = Some \<lparr>scrollLeft = Fin 40, scrollTop = Fin 300\<rparr>\<rparr>
   \<and> scrollToItem pointer_env 7 scrolled_body =
     Inr \<lparr>headerRef = Some \<lparr>scrollLeft = Fin 38, scrollTop = Fin 0\<rparr>,
          bodyRef = Some \<lparr>scrollLeft = Fin 38, scrollTop = Fin 300\<rparr>\<rparr>
   \<and> aligned \<lparr>headerRef = Some \<lparr>scrollLeft = Fin 38, scrollTop = Fin 0\<rparr>,
          bodyRef = Some \<lparr>scrollLeft = Fin 38, scrollTop = Fin 300\<rparr>\<rparr>"
proof -
  have h: "headerRef scrolled_body = Some \<lparr>scrollLeft = Fin 0, scrollTop = Fin 0\<rparr>
      \<and> bodyRef scrolled_body = Some \<lparr>scrollLeft = Fin 40, scrollTop = Fin 300\<rparr>"
    by (simp add: scrolled_body_def)
  have m: "getInteractionModality pointer_env \<noteq> Some KeyboardModality"
    by (simp add: pointer_env_def)
  have s: "scrollToItem pointer_env 7 scrolled_body =
     Inr \<lparr>headerRef = Some \<lparr>scrollLeft = Fin 38, scrollTop = Fin 0\<rparr>,
          bodyRef = Some \<lparr>scrollLeft = Fin 38, scrollTop = Fin 300\<rparr>\<rparr>"
    by (simp add: scrollToItem_def pointer_env_def scrolled_body_def Let_def)
  show ?thesis
    using h m s
      header_follows_body [of scrolled_body "\<lparr>scrollLeft = Fin 0, scrollTop = Fin 0\<rparr>"
        "\<lparr>scrollLeft = Fin 40, scrollTop = Fin 300\<rparr>"
        "\<lparr>headerRef = Some \<lparr>scrollLeft = Fin 40, scrollTop = Fin 0\<rparr>,
          bodyRef = Some \<lparr>scrollLeft = Fin 40, scrollTop = Fin 300\<rparr>\<rparr>"
        pointer_env 7
        "\<lparr>headerRef = Some \<lparr>scrollLeft = Fin 38, scrollTop = Fin 0\<rparr>,
          bodyRef = Some \<lparr>scrollLeft = Fin 38, scrollTop = Fin 300\<rparr>\<rparr>"]
    by (simp add: scrolled_body_def)
qed

subsection \<open>The range input of the resizer\<close>

lemma resize_requests:
  "cstate (fst (resize state props key w h)) = snd (onColumnResize state key w (cstate h))"
  by (simp add: resize_def Let_def split: prod.splits)

lemma js_gt_irrefl: "\<not> js_gt a a"
  by (cases a) simp_all

text \<open>
  C3. A change event asks the resize state for exactly one width: the current width
  plus 10 when the parsed value is greater than the current width, and the current
  width minus 10 otherwise. The parsed value enters through that comparison only. A
  parsed value equal to the current width, and one that is NaN, give the current width
  minus 10.
\<close>

theorem onChange_steps_by_ten:
  "onChange rnd parseFloat state props key v h =
     resize state props key
       (if js_gt (parseFloat v) (getColumnWidth state (cstate h) key)
        then js_add rnd (getColumnWidth state (cstate h) key) (Fin 10)
        else js_sub rnd (getColumnWidth state (cstate h) key) (Fin 10)) h
   \<and> cstate (fst (onChange rnd parseFloat state props key v h)) =
     snd (onColumnResize state key
       (if js_gt (parseFloat v) (getColumnWidth state (cstate h) key)
        then js_add rnd (getColumnWidth state (cstate h) key) (Fin 10)
        else js_sub rnd (getColumnWidth state (cstate h) key) (Fin 10)) (cstate h))
   \<and> onChange rnd (\<lambda>s. getColumnWidth state (cstate h) key) state props key v h =
     resize state props key (js_sub rnd (getColumnWidth state (cstate h) key) (Fin 10)) h
   \<and> onChange rnd (\<lambda>s. NaN) state props key v h =
     resize state props key (js_sub rnd (getColumnWidth state (cstate h) key) (Fin 10)) h"
  by (simp add: onChange_def Let_def resize_requests js_gt_irrefl)

theorem onChange_steps_by_ten_witness:
  "onChange Fin (\<lambda>s. Fin 250) single_column all_callbacks 0 ''250'' (initial_hook (Fin 100))
     = (\<lparr>isResizing = False, lastSize = Some (Fin 110), columnResizeWidthRef = Fin 0,
          cstate = Fin 110\<rparr>, [OnResize (Fin 110)])
   \<and> onChange Fin (\<lambda>s. Fin 100) single_column all_callbacks 0 ''100'' (initial_hook (Fin 100))
     = (\<lparr>isResizing = False, lastSize = Some (Fin 90), columnResizeWidthRef = Fin 0,
          cstate = Fin 90\<rparr>, [OnResize (Fin 90)])
   \<and> onChange Fin (\<lambda>s. NaN) single_column all_callbacks 0 [] (initial_hook (Fin 100))
     = (\<lparr>isResizing = False, lastSize = Some (Fin 90), columnResizeWidthRef = Fin 0,
          cstate = Fin 90\<rparr>, [OnResize (Fin 90)])"
  using onChange_steps_by_ten [of Fin "\<lambda>s. Fin 250" single_column all_callbacks 0 "''250''"
      "initial_hook (Fin 100)", THEN conjunct1]
    onChange_steps_by_ten [of Fin "\<lambda>s. Fin 100" single_column all_callbacks 0 "''100''"
      "initial_hook (Fin 100)", THEN conjunct1]
    onChange_steps_by_ten [of Fin "\<lambda>s. NaN" single_column all_callbacks 0 "[]"
      "initial_hook (Fin 100)", THEN conjunct1]
  by (simp add: single_column_def all_callbacks_def initial_hook_def resize_def)

lemma js_floor_PInf: "js_eq (js_floor a) PInf = (a = PInf)"
  by (cases a) (simp_all add: js_eq_def)

text \<open>
  C4. In the attribute object of the input, min is the floor of the column's minimum
  width, value the floor of its current width, and max the floor of its maximum width,
  except that a maximum width of Infinity gives Number.MAX_SAFE_INTEGER, which is
  9007199254740991.
\<close>

theorem ariaProps_range:
  "attr_min (ariaProps env state props key s) = js_floor (getColumnMinWidth state s key)
   \<and> attr_value (ariaProps env state props key s) = js_floor (getColumnWidth state s key)
   \<and> attr_max (ariaProps env state props key s) =
       (if getColumnMaxWidth state s key = PInf then MAX_SAFE_INTEGER
        else js_floor (getColumnMaxWidth state s key))
   \<and> MAX_SAFE_INTEGER = Fin (2 ^ 53 - 1)"
  by (simp add: ariaProps_def Let_def js_floor_PInf MAX_SAFE_INTEGER_def)

theorem ariaProps_range_witness:
  "attr_min (ariaProps \<lparr>input_id = ''r1'', getColumnHeaderId = (\<lambda>key. ''h''),
        formatColumnSize = (\<lambda>n. ''w'')\<rparr> single_column all_callbacks 0 (Fin (2001 / 10))) = Fin 75
   \<and> attr_value (ariaProps \<lparr>input_id = ''r1'', getColumnHeaderId = (\<lambda>key. ''h''),
        formatColumnSize = (\<lambda>n. ''w'')\<rparr> single_column all_callbacks 0 (Fin (2001 / 10))) = Fin 200
   \<and> attr_max (ariaProps \<lparr>input_id = ''r1'', getColumnHeaderId = (\<lambda>key. ''h''),
        formatColumnSize = (\<lambda>n. ''w'')\<rparr> single_column all_callbacks 0 (Fin (2001 / 10)))
       = Fin 9007199254740991"
  using ariaProps_range [of "\<lparr>input_id = ''r1'', getColumnHeaderId = (\<lambda>key. ''h''),
        formatColumnSize = (\<lambda>n. ''w'')\<rparr>" single_column all_callbacks 0 "Fin (2001 / 10)"]
  by (simp add: single_column_def)

subsection \<open>Moving the resizer\<close>

text \<open>
  C5. In a right-to-left locale the move is the left-to-right move of the event with
  deltaX multiplied by -1. Left to right, a keyboard event with deltaY not zero and
  deltaX zero has its horizontal delta replaced by deltaY times -1, and every keyboard
  delta is then multiplied by 10; any other pointer type leaves deltaX as it is. A move
  whose resulting delta is zero returns the cells unchanged and calls nothing; any other
  move adds the delta to columnResizeWidthRef and resizes to the sum.
\<close>

theorem onMove_delta:
  "moveDeltaX rnd RTL e = moveDeltaX rnd LTR (e\<lparr>deltaX := js_mul rnd (deltaX e) (Fin (- 1))\<rparr>)
   \<and> moveDeltaX rnd LTR e =
       (if pointerType e = Keyboard then
          js_mul rnd (if \<not> js_eq (deltaY e) (Fin 0) \<and> js_eq (deltaX e) (Fin 0)
                      then js_mul rnd (deltaY e) (Fin (- 1)) else deltaX e) (Fin 10)
        else deltaX e)
   \<and> onMove rnd state props dir key e h =
       (if js_eq (moveDeltaX rnd dir e) (Fin 0) then (h, [])
        else resize state props key (js_add rnd (columnResizeWidthRef h) (moveDeltaX rnd dir e))
               (h\<lparr>columnResizeWidthRef :=
                    js_add rnd (columnResizeWidthRef h) (moveDeltaX rnd dir e)\<rparr>))"
  by (simp add: moveDeltaX_def onMove_def Let_def)

theorem onMove_delta_witness:
  "moveDeltaX Fin LTR \<lparr>deltaX = Fin 0, deltaY = Fin 1, pointerType = Keyboard\<rparr> = Fin (- 10)
   \<and> moveDeltaX Fin RTL \<lparr>deltaX = Fin 1, deltaY = Fin 0, pointerType = Keyboard\<rparr> = Fin (- 10)
   \<and> moveDeltaX Fin RTL \<lparr>deltaX = Fin 3, deltaY = Fin 5, pointerType = Mouse\<rparr> = Fin (- 3)
   \<and> onMove Fin single_column all_callbacks LTR 0
        \<lparr>deltaX = Fin 0, deltaY = Fin 4, pointerType = Mouse\<rparr> (initial_hook (Fin 100))
       = (initial_hook (Fin 100), [])
   \<and> onMove Fin single_column all_callbacks LTR 0
        \<lparr>deltaX = Fin 0, deltaY = Fin 1, pointerType = Keyboard\<rparr>
        \<lparr>isResizing = True, lastSize = None, columnResizeWidthRef = Fin 100, cstate = Fin 100\<rparr>
       = (\<lparr>isResizing = True, lastSize = Some (Fin 90), columnResizeWidthRef = Fin 90,
            cstate = Fin 90\<rparr>, [OnResize (Fin 90)])"
  using onMove_delta [where rnd = Fin and dir = LTR and key = "0::nat" and state = single_column
      and props = all_callbacks
      and e = "\<lparr>deltaX = Fin 0, deltaY = Fin 1, pointerType = Keyboard\<rparr>"
      and h = "\<lparr>isResizing = True, lastSize = None, columnResizeWidthRef = Fin 100,
        cstate = Fin 100\<rparr>"]
    onMove_delta [where rnd = Fin and dir = LTR and key = "0::nat" and state = single_column
      and props = all_callbacks
      and e = "\<lparr>deltaX = Fin 0, deltaY = Fin 4, pointerType = Mouse\<rparr>"
      and h = "initial_hook (Fin 100) :: (jsnum, jsnum) hook"]
  by (simp add: moveDeltaX_def js_eq_def single_column_def all_callbacks_def resize_def
      initial_hook_def)

subsection \<open>SelectList: the attributes of the List\<close>










subsection \<open>SelectList: selecting an option\<close>

lemma strict_eq_refl: "x \<noteq> VNum NaN \<Longrightarrow> strict_eq x x"
  by (cases x) simp_all

lemma indexOf_absent: "\<forall>y\<in>set v. \<not> strict_eq y x \<Longrightarrow> indexOf v x = - 1"
  by (induction v) (simp_all add: Let_def)

lemma indexOf_appended:
  "\<forall>y\<in>set v. \<not> strict_eq y x \<Longrightarrow> strict_eq x x \<Longrightarrow> indexOf (v @ [x]) x = int (length v)"
  by (induction v) (simp_all add: Let_def)

lemma slice_prefix: "slice (v @ [x]) 0 (int (length v)) = v"
  by (simp add: slice_def Let_def)

lemma slice_past_end: "slice (v @ [x]) (int (length v) + 1) (int (length (v @ [x]))) = []"
  by (simp add: slice_def Let_def)

text \<open>A non-negative result of \<open>indexOf\<close> is the first index that holds the value.\<close>

lemma indexOf_found:
  "0 \<le> indexOf xs x \<Longrightarrow>
     strict_eq (xs ! nat (indexOf xs x)) x \<and> nat (indexOf xs x) < length xs
     \<and> (\<forall>j < nat (indexOf xs x). \<not> strict_eq (xs ! j) x)"
proof (induction xs)
  case Nil
  then show ?case by simp
next
  case (Cons y ys)
  show ?case
  proof (cases "strict_eq y x")
    case True
    then show ?thesis by simp
  next
    case False
    with Cons.prems have nn: "0 \<le> indexOf ys x"
      by (simp add: Let_def split: if_splits)
    with False have eq: "indexOf (y # ys) x = indexOf ys x + 1"
      by (simp add: Let_def)
    from Cons.IH [OF nn] have ih: "strict_eq (ys ! nat (indexOf ys x)) x"
      "nat (indexOf ys x) < length ys" "\<forall>j < nat (indexOf ys x). \<not> strict_eq (ys ! j) x"
      by auto
    have n: "nat (indexOf ys x + 1) = Suc (nat (indexOf ys x))"
      using nn by simp
    show ?thesis unfolding eq n using ih False
      by (auto simp add: less_Suc_eq_0_disj)
  qed
qed

text \<open>\<open>removeSelection\<close> of a value that is found drops its first occurrence and nothing else.\<close>

lemma removeSelection_first:
  assumes "state_value st = VArr r xs" and "0 \<le> indexOf xs (opt_value x)"
  shows "removeSelection conv ref st x =
    Inr (VArr ref (take (nat (indexOf xs (opt_value x))) xs
               @ drop (Suc (nat (indexOf xs (opt_value x)))) xs))"
proof -
  let ?i = "indexOf xs (opt_value x)"
  have lt: "nat ?i < length xs"
    using indexOf_found [OF assms(2)] by simp
  have le: "?i < int (length xs)"
    using lt assms(2) by linarith
  have a: "slice xs 0 ?i = take (nat ?i) xs"
    using assms(2) le by (simp add: slice_def Let_def min_def)
  have b: "slice xs (?i + 1) (int (length xs)) = drop (Suc (nat ?i)) xs"
    using assms(2) le by (simp add: slice_def Let_def min_def nat_add_distrib)
  show ?thesis
    using assms(1) a b by (simp add: removeSelection_def Let_def)
qed

lemma addSelection_appends:
  "state_value st = VArr r v \<Longrightarrow> addSelection ref st x = Inr (VArr ref (v @ [opt_value x]))"
  by (simp add: addSelection_def spread_def)

lemma first_select_adds:
  assumes "truthy (read_prop props ''multiple'')" and "state_value st = VArr r v"
    and "\<forall>y\<in>set v. \<not> strict_eq y (opt_value x)"
  shows "nextOptions conv ref props st x = addSelection ref st x"
  using assms by (simp add: nextOptions_def isSelected_def indexOf_absent)

lemma second_select_removes:
  assumes "truthy (read_prop props ''multiple'')"
    and "state_value st = VArr r (v @ [opt_value x])"
    and "\<forall>y\<in>set v. \<not> strict_eq y (opt_value x)" and "opt_value x \<noteq> VNum NaN"
  shows "nextOptions conv ref props st x = removeSelection conv ref st x
       \<and> removeSelection conv ref st x = Inr (VArr ref v)"
proof -
  have i: "indexOf (v @ [opt_value x]) (opt_value x) = int (length v)"
    using assms(3) strict_eq_refl [OF assms(4)] by (rule indexOf_appended)
  have "removeSelection conv ref st x = Inr (VArr ref v)"
    using assms(2) slice_prefix [of v "opt_value x"] slice_past_end [of v "opt_value x"]
    by (simp add: removeSelection_def Let_def i)
  then show ?thesis
    using assms(1,2) by (simp add: nextOptions_def isSelected_def i)
qed

lemma handleSelect_state:
  "state_value (fst (handleSelect conv ref props st x)) =
     (case nextOptions conv ref props st x of
        Inl e \<Rightarrow> state_value st
      | Inr next \<Rightarrow> if props ''value'' = None then next else state_value st)"
  by (cases "nextOptions conv ref props st x"; cases "read_prop props ''onChange''")
     (simp_all add: handleSelect_def Let_def)

lemma handleSelect_effects:
  "snd (handleSelect conv ref props st x) =
     (case nextOptions conv ref props st x of
        Inl e \<Rightarrow> [Threw e]
      | Inr next \<Rightarrow>
          (case read_prop props ''onChange'' of
             VFun f \<Rightarrow> [OnChange next]
           | handler \<Rightarrow> if truthy handler then [Threw TypeError] else []))"
  by (cases "nextOptions conv ref props st x"; cases "read_prop props ''onChange''")
     (simp_all add: handleSelect_def Let_def)

lemma handleSelect_controlled:
  assumes "props ''value'' \<noteq> None"
  shows "fst (handleSelect conv ref props st x) = st"
proof -
  from assms obtain y where "props ''value'' = Some y" by blast
  then show ?thesis
    by (cases "nextOptions conv ref props st x"; cases "read_prop props ''onChange''")
       (simp_all add: handleSelect_def Let_def)
qed

text \<open>
  Two arrays with the same elements are different values to \<open>indexOf\<close>: an option whose
  value is an array is selected only when that very array is stored. A stored string is
  searched and cut by its characters.
\<close>

lemma isSelected_by_identity:
  "isSelected conv multiple_props \<lparr>state_value = VArr 1 [VArr 5 [VStr ''a'']]\<rparr>
     \<lparr>opt_value = VArr 6 [VStr ''a''], opt_label = VNull, opt_icon = VNull, opt_disabled = VNull\<rparr>
     = Inr (VBool False)
   \<and> isSelected conv multiple_props \<lparr>state_value = VArr 1 [VArr 5 [VStr ''a'']]\<rparr>
     \<lparr>opt_value = VArr 5 [VStr ''a''], opt_label = VNull, opt_icon = VNull, opt_disabled = VNull\<rparr>
     = Inr (VBool True)"
  by (simp add: isSelected_def multiple_props_def read_prop_def)

lemma handleSelect_on_string:
  "handleSelect conv 9 multiple_props \<lparr>state_value = VStr ''abc''\<rparr> option_b
     = (\<lparr>state_value = VArr 9 [VStr ''a'', VStr ''c'']\<rparr>, [OnChange (VArr 9 [VStr ''a'', VStr ''c''])])"
  by (simp add: handleSelect_def nextOptions_def isSelected_def removeSelection_def spread_def
      toString_def slice_def multiple_props_def option_b_def read_prop_def Let_def)

text \<open>
  C8, as amended. In multiple-selection mode and without a value prop, for a stored
  selection list v and an option x whose value is not NaN and is \<open>===\<close> to no element of
  v: handleSelect for x takes the addSelection branch, which appends x's value at the
  end of v, and stores the result; handleSelect for x again takes the removeSelection
  branch, which yields an array with the elements of v, hands it to onChange and stores
  it. Whenever removeSelection finds the value in the stored array, what it removes is
  the first occurrence and nothing else.
\<close>

theorem toggle_twice:
  assumes "truthy (read_prop props ''multiple'')" and "props ''value'' = None"
    and "state_value st = VArr r v"
    and "\<forall>y\<in>set v. \<not> strict_eq y (opt_value x)" and "opt_value x \<noteq> VNum NaN"
  shows "nextOptions conv ref1 props st x = addSelection ref1 st x
       \<and> addSelection ref1 st x = Inr (VArr ref1 (v @ [opt_value x]))
       \<and> state_value (fst (handleSelect conv ref1 props st x)) = VArr ref1 (v @ [opt_value x])
       \<and> nextOptions conv ref2 props (fst (handleSelect conv ref1 props st x)) x
           = removeSelection conv ref2 (fst (handleSelect conv ref1 props st x)) x
       \<and> removeSelection conv ref2 (fst (handleSelect conv ref1 props st x)) x = Inr (VArr ref2 v)
       \<and> state_value (fst (handleSelect conv ref2 props (fst (handleSelect conv ref1 props st x)) x))
           = VArr ref2 v
       \<and> snd (handleSelect conv ref2 props (fst (handleSelect conv ref1 props st x)) x)
           = (case read_prop props ''onChange'' of
                VFun f \<Rightarrow> [OnChange (VArr ref2 v)]
              | handler \<Rightarrow> if truthy handler then [Threw TypeError] else [])
       \<and> (state_value st' = VArr r' xs \<and> 0 \<le> indexOf xs (opt_value x) \<longrightarrow>
            removeSelection conv ref2 st' x
              = Inr (VArr ref2 (take (nat (indexOf xs (opt_value x))) xs
                                @ drop (Suc (nat (indexOf xs (opt_value x)))) xs))
            \<and> strict_eq (xs ! nat (indexOf xs (opt_value x))) (opt_value x)
            \<and> (\<forall>j < nat (indexOf xs (opt_value x)). \<not> strict_eq (xs ! j) (opt_value x)))"
proof -
  let ?st1 = "fst (handleSelect conv ref1 props st x)"
  have n1: "nextOptions conv ref1 props st x = addSelection ref1 st x"
    using assms(1,3,4) by (rule first_select_adds)
  have a1: "addSelection ref1 st x = Inr (VArr ref1 (v @ [opt_value x]))"
    using assms(3) by (rule addSelection_appends)
  have s1: "state_value ?st1 = VArr ref1 (v @ [opt_value x])"
    using assms(2) n1 a1 by (simp add: handleSelect_state)
  have n2: "nextOptions conv ref2 props ?st1 x = removeSelection conv ref2 ?st1 x
       \<and> removeSelection conv ref2 ?st1 x = Inr (VArr ref2 v)"
    using assms(1) s1 assms(4,5) by (rule second_select_removes)
  have s2: "state_value (fst (handleSelect conv ref2 props ?st1 x)) = VArr ref2 v"
    using assms(2) n2 by (simp add: handleSelect_state)
  have e2: "snd (handleSelect conv ref2 props ?st1 x)
           = (case read_prop props ''onChange'' of
                VFun f \<Rightarrow> [OnChange (VArr ref2 v)]
              | handler \<Rightarrow> if truthy handler then [Threw TypeError] else [])"
    using n2 by (simp add: handleSelect_effects)
  have f: "state_value st' = VArr r' xs \<and> 0 \<le> indexOf xs (opt_value x) \<longrightarrow>
            removeSelection conv ref2 st' x
              = Inr (VArr ref2 (take (nat (indexOf xs (opt_value x))) xs
                                @ drop (Suc (nat (indexOf xs (opt_value x)))) xs))
            \<and> strict_eq (xs ! nat (indexOf xs (opt_value x))) (opt_value x)
            \<and> (\<forall>j < nat (indexOf xs (opt_value x)). \<not> strict_eq (xs ! j) (opt_value x))"
    using removeSelection_first [of st' r' xs x conv ref2] indexOf_found [of xs "opt_value x"]
    by blast
  show ?thesis
    by (intro conjI) (rule n1 a1 s1 n2 [THEN conjunct1] n2 [THEN conjunct2] s2 e2 f)+
qed

theorem toggle_twice_witness:
  "truthy (read_prop multiple_props ''multiple'')
   \<and> multiple_props ''value'' = None
   \<and> \<not> strict_eq (VStr ''a'') (opt_value option_b)
   \<and> \<not> strict_eq (VArr 7 [VStr ''b'']) (opt_value option_b)
   \<and> opt_value option_b \<noteq> VNum NaN
   \<and> state_value (fst (handleSelect plain_conv 2 multiple_props
        \<lparr>state_value = VArr 1 [VStr ''a'', VArr 7 [VStr ''b'']]\<rparr> option_b))
       = VArr 2 [VStr ''a'', VArr 7 [VStr ''b''], VStr ''b'']
   \<and> state_value (fst (handleSelect plain_conv 3 multiple_props
        (fst (handleSelect plain_conv 2 multiple_props
          \<lparr>state_value = VArr 1 [VStr ''a'', VArr 7 [VStr ''b'']]\<rparr> option_b)) option_b))
       = VArr 3 [VStr ''a'', VArr 7 [VStr ''b'']]
   \<and> snd (handleSelect plain_conv 3 multiple_props
        (fst (handleSelect plain_conv 2 multiple_props
          \<lparr>state_value = VArr 1 [VStr ''a'', VArr 7 [VStr ''b'']]\<rparr> option_b)) option_b)
       = [OnChange (VArr 3 [VStr ''a'', VArr 7 [VStr ''b'']])]"
proof -
  have m: "truthy (read_prop multiple_props ''multiple'')"
    by (simp add: multiple_props_def read_prop_def)
  have u: "multiple_props ''value'' = None"
    by (simp add: multiple_props_def)
  have s: "state_value \<lparr>state_value = VArr 1 [VStr ''a'', VArr 7 [VStr ''b'']]\<rparr>
      = VArr 1 [VStr ''a'', VArr 7 [VStr ''b'']]"
    by simp
  have a: "\<forall>y\<in>set [VStr ''a'', VArr 7 [VStr ''b'']]. \<not> strict_eq y (opt_value option_b)"
    by (simp add: option_b_def)
  have n: "opt_value option_b \<noteq> VNum NaN"
    by (simp add: option_b_def)
  have c: "read_prop multiple_props ''onChange'' = VFun 0"
    by (simp add: multiple_props_def read_prop_def)
  have b: "opt_value option_b = VStr ''b''"
    by (simp add: option_b_def)
  note t = toggle_twice [OF m u s a n, of plain_conv 2 3]
  have s1: "state_value (fst (handleSelect plain_conv 2 multiple_props
        \<lparr>state_value = VArr 1 [VStr ''a'', VArr 7 [VStr ''b'']]\<rparr> option_b))
       = VArr 2 [VStr ''a'', VArr 7 [VStr ''b''], VStr ''b'']"
    using t [THEN conjunct2, THEN conjunct2, THEN conjunct1] by (simp add: b)
  have s2: "state_value (fst (handleSelect plain_conv 3 multiple_props
        (fst (handleSelect plain_conv 2 multiple_props
          \<lparr>state_value = VArr 1 [VStr ''a'', VArr 7 [VStr ''b'']]\<rparr> option_b)) option_b))
       = VArr 3 [VStr ''a'', VArr 7 [VStr ''b'']]"
    by (rule t [THEN conjunct2, THEN conjunct2, THEN conjunct2, THEN conjunct2, THEN conjunct2,
          THEN conjunct1])
  have e2: "snd (handleSelect plain_conv 3 multiple_props
        (fst (handleSelect plain_conv 2 multiple_props
          \<lparr>state_value = VArr 1 [VStr ''a'', VArr 7 [VStr ''b'']]\<rparr> option_b)) option_b)
       = [OnChange (VArr 3 [VStr ''a'', VArr 7 [VStr ''b'']])]"
    using t [THEN conjunct2, THEN conjunct2, THEN conjunct2, THEN conjunct2, THEN conjunct2,
          THEN conjunct2, THEN conjunct1]
    by (simp add: c)
  have a1: "\<not> strict_eq (VStr ''a'') (opt_value option_b)"
    and a2: "\<not> strict_eq (VArr 7 [VStr ''b'']) (opt_value option_b)"
    using a by simp_all
  show ?thesis
    by (intro conjI) (rule m u a1 a2 n s1 s2 e2)+
qed

text \<open>
  The claim as stated fails in two ways. For an option whose value is NaN, \<open>indexOf\<close>
  never finds the value, so the second call appends it once more: stored selection
  \<open>[]\<close>, no value prop. And with a value prop nothing is stored, so the second call
  takes the addSelection branch again and hands onChange the selection with the value
  appended: stored selection \<open>[a]\<close>, option value \<open>b\<close>.
\<close>

theorem toggle_twice_counterexample:
  "truthy (read_prop multiple_props ''multiple'')
   \<and> opt_value nan_option \<notin> set []
   \<and> state_value (fst (handleSelect plain_conv 3 multiple_props
        (fst (handleSelect plain_conv 2 multiple_props \<lparr>state_value = VArr 1 []\<rparr> nan_option))
        nan_option))
      = VArr 3 [VNum NaN, VNum NaN]
   \<and> truthy (read_prop controlled_props ''multiple'')
   \<and> opt_value option_b \<notin> set [VStr ''a'']
   \<and> opt_value option_b \<noteq> VNum NaN
   \<and> handleSelect plain_conv 3 controlled_props
        (fst (handleSelect plain_conv 2 controlled_props \<lparr>state_value = VArr 1 [VStr ''a'']\<rparr>
          option_b)) option_b
      = (\<lparr>state_value = VArr 1 [VStr ''a'']\<rparr>, [OnChange (VArr 3 [VStr ''a'', VStr ''b''])])"
  by (simp add: multiple_props_def controlled_props_def nan_option_def option_b_def
      handleSelect_def nextOptions_def isSelected_def addSelection_def spread_def read_prop_def
      Let_def)

text \<open>
  C9. With a value key among the props, handleSelect returns the state it was given,
  for every option; all it does is call onChange with the next selection value when an
  onChange is supplied (or throw, when computing that value throws or onChange is not a
  function). A state that handleSelect changed is proof that there was no value key.
\<close>

theorem controlled_keeps_state:
  "(props ''value'' \<noteq> None \<longrightarrow> fst (handleSelect conv ref props st x) = st)
   \<and> (fst (handleSelect conv ref props st x) \<noteq> st \<longrightarrow> props ''value'' = None)
   \<and> snd (handleSelect conv ref props st x) =
       (case nextOptions conv ref props st x of
          Inl e \<Rightarrow> [Threw e]
        | Inr next \<Rightarrow>
            (case read_prop props ''onChange'' of
               VFun f \<Rightarrow> [OnChange next]
             | handler \<Rightarrow> if truthy handler then [Threw TypeError] else []))"
proof -
  have a: "props ''value'' \<noteq> None \<longrightarrow> fst (handleSelect conv ref props st x) = st"
    using handleSelect_controlled [of props conv ref st x] by (rule impI)
  from a have b: "fst (handleSelect conv ref props st x) \<noteq> st \<longrightarrow> props ''value'' = None"
    by blast
  show ?thesis
    using a b by (intro conjI) (assumption, assumption, rule handleSelect_effects)
qed

theorem controlled_keeps_state_witness:
  "controlled_props ''value'' \<noteq> None
   \<and> handleSelect plain_conv 2 controlled_props \<lparr>state_value = VArr 1 [VStr ''a'']\<rparr> option_b
       = (\<lparr>state_value = VArr 1 [VStr ''a'']\<rparr>, [OnChange (VArr 2 [VStr ''a'', VStr ''b''])])
   \<and> fst (handleSelect plain_conv 2 multiple_props \<lparr>state_value = VArr 1 [VStr ''a'']\<rparr> option_b)
       \<noteq> \<lparr>state_value = VArr 1 [VStr ''a'']\<rparr>
   \<and> multiple_props ''value'' = None"
proof -
  have c: "controlled_props ''value'' \<noteq> None"
    by (simp add: controlled_props_def)
  have h: "handleSelect plain_conv 2 controlled_props \<lparr>state_value = VArr 1 [VStr ''a'']\<rparr> option_b
       = (\<lparr>state_value = VArr 1 [VStr ''a'']\<rparr>, [OnChange (VArr 2 [VStr ''a'', VStr ''b''])])"
    by (simp add: controlled_props_def option_b_def handleSelect_def nextOptions_def
        isSelected_def addSelection_def spread_def read_prop_def Let_def)
  have d: "fst (handleSelect plain_conv 2 multiple_props \<lparr>state_value = VArr 1 [VStr ''a'']\<rparr>
        option_b) \<noteq> \<lparr>state_value = VArr 1 [VStr ''a'']\<rparr>"
    by (simp add: multiple_props_def option_b_def handleSelect_def nextOptions_def
        isSelected_def addSelection_def spread_def read_prop_def Let_def)
  show ?thesis
    using c h d
      controlled_keeps_state [of controlled_props plain_conv 2
        "\<lparr>state_value = VArr 1 [VStr ''a'']\<rparr>" option_b, THEN conjunct1]
      controlled_keeps_state [of multiple_props plain_conv 2
        "\<lparr>state_value = VArr 1 [VStr ''a'']\<rparr>" option_b, THEN conjunct2, THEN conjunct1]
    by simp
qed

subsection \<open>SelectList: receiving props\<close>

text \<open>
  C10. componentWillReceiveProps returns the state unchanged when the incoming value
  is not truthy: missing, undefined, null, false, 0, NaN or the empty string. When it
  does change the state, the incoming value is truthy and not \<open>===\<close> the stored one, and
  it is what is stored.
\<close>

theorem falsy_value_keeps_selection:
  "(\<not> truthy (read_prop props ''value'') \<longrightarrow> componentWillReceiveProps props st = st)
   \<and> (props ''value'' \<in> {None, Some VUndefined, Some VNull, Some (VBool False),
          Some (VNum (Fin 0)), Some (VNum NaN), Some (VStr '''')}
        \<longrightarrow> componentWillReceiveProps props st = st)
   \<and> (componentWillReceiveProps props st \<noteq> st \<longrightarrow>
        truthy (read_prop props ''value'')
        \<and> \<not> strict_eq (read_prop props ''value'') (state_value st)
        \<and> state_value (componentWillReceiveProps props st) = read_prop props ''value'')"
  by (auto simp add: componentWillReceiveProps_def read_prop_def)

theorem falsy_value_keeps_selection_witness:
  "\<not> truthy (read_prop [''value'' \<mapsto> VNull] ''value'')
   \<and> componentWillReceiveProps [''value'' \<mapsto> VNull] \<lparr>state_value = VArr 1 [VStr ''a'']\<rparr>
       = \<lparr>state_value = VArr 1 [VStr ''a'']\<rparr>
   \<and> componentWillReceiveProps [''value'' \<mapsto> VArr 2 []] \<lparr>state_value = VArr 1 [VStr ''a'']\<rparr>
       \<noteq> \<lparr>state_value = VArr 1 [VStr ''a'']\<rparr>
   \<and> truthy (read_prop [''value'' \<mapsto> VArr 2 []] ''value'')
   \<and> state_value (componentWillReceiveProps [''value'' \<mapsto> VArr 2 []]
        \<lparr>state_value = VArr 1 [VStr ''a'']\<rparr>) = VArr 2 []"
proof -
  have f: "\<not> truthy (read_prop [''value'' \<mapsto> VNull] ''value'')"
    by (simp add: read_prop_def)
  have d: "componentWillReceiveProps [''value'' \<mapsto> VArr 2 []] \<lparr>state_value = VArr 1 [VStr ''a'']\<rparr>
       \<noteq> \<lparr>state_value = VArr 1 [VStr ''a'']\<rparr>"
    by (simp add: componentWillReceiveProps_def read_prop_def)
  show ?thesis
    using f d
      falsy_value_keeps_selection [of "[''value'' \<mapsto> VNull]" "\<lparr>state_value = VArr 1 [VStr ''a'']\<rparr>"]
      falsy_value_keeps_selection [of "[''value'' \<mapsto> VArr 2 []]" "\<lparr>state_value = VArr 1 [VStr ''a'']\<rparr>"]
    by (simp add: read_prop_def)
qed

end
